theory Spec2Isabelle
  imports Complex_Main
begin

section \<open>JavaScript numbers\<close>

text \<open>
  Every coordinate of the icon path engine is a JavaScript \<^verbatim>\<open>number\<close>.  The model keeps
  the three non-finite values of the language (\<^verbatim>\<open>Infinity\<close>, \<^verbatim>\<open>-Infinity\<close>, \<^verbatim>\<open>NaN\<close>)
  with their arithmetic, because the source relies on them (the bounds of an empty path
  start at \<^verbatim>\<open>Infinity\<close>, a failed \<^verbatim>\<open>parseFloat\<close> is \<^verbatim>\<open>NaN\<close>).  Finite values are
  real numbers and finite arithmetic is exact: binary64 rounding, overflow and the sign
  of zero are outside the model.
\<close>

datatype number = Num real | PosInf | NegInf | NaN

fun isNaN :: "number \<Rightarrow> bool" where
  "isNaN NaN = True"
| "isNaN _ = False"

fun isFinite :: "number \<Rightarrow> bool" where
  "isFinite (Num _) = True"
| "isFinite _ = False"

text \<open>The sign of a value that is not \<^verbatim>\<open>NaN\<close>, used by multiplication and division.\<close>

fun sign_of :: "number \<Rightarrow> int" where
  "sign_of (Num r) = (if r < 0 then - 1 else if r = 0 then 0 else 1)"
| "sign_of PosInf = 1"
| "sign_of NegInf = - 1"
| "sign_of NaN = 0"

definition inf_of_sign :: "int \<Rightarrow> number" where
  "inf_of_sign s = (if s = 0 then NaN else if 0 < s then PosInf else NegInf)"

instantiation number :: "{zero, one, plus, uminus, minus, times, inverse, ord}"
begin

definition zero_number :: number where
  "zero_number = Num 0"

definition one_number :: number where
  "one_number = Num 1"

fun plus_number :: "number \<Rightarrow> number \<Rightarrow> number" where
  "plus_number NaN _ = NaN"
| "plus_number _ NaN = NaN"
| "plus_number (Num a) (Num b) = Num (a + b)"
| "plus_number PosInf NegInf = NaN"
| "plus_number NegInf PosInf = NaN"
| "plus_number PosInf _ = PosInf"
| "plus_number _ PosInf = PosInf"
| "plus_number NegInf _ = NegInf"
| "plus_number _ NegInf = NegInf"

fun uminus_number :: "number \<Rightarrow> number" where
  "uminus_number (Num a) = Num (- a)"
| "uminus_number PosInf = NegInf"
| "uminus_number NegInf = PosInf"
| "uminus_number NaN = NaN"

definition minus_number :: "number \<Rightarrow> number \<Rightarrow> number" where
  "minus_number a b = a + (- b)"

fun times_number :: "number \<Rightarrow> number \<Rightarrow> number" where
  "times_number NaN _ = NaN"
| "times_number _ NaN = NaN"
| "times_number (Num a) (Num b) = Num (a * b)"
| "times_number a b = inf_of_sign (sign_of a * sign_of b)"

text \<open>
  Division.  A finite non-zero value divided by zero is an infinity with the sign of the
  dividend (the zero is taken as positive), \<^verbatim>\<open>0 / 0\<close> and \<^verbatim>\<open>Infinity / Infinity\<close> are
  \<^verbatim>\<open>NaN\<close>, and a finite value divided by an infinity is zero.
\<close>

fun divide_number :: "number \<Rightarrow> number \<Rightarrow> number" where
  "divide_number NaN _ = NaN"
| "divide_number _ NaN = NaN"
| "divide_number (Num a) (Num b) =
     (if b = 0 then inf_of_sign (sign_of (Num a)) else Num (a / b))"
| "divide_number (Num a) _ = Num 0"
| "divide_number a (Num b) = inf_of_sign (sign_of a * (if b < 0 then - 1 else 1))"
| "divide_number _ _ = NaN"

fun inverse_number :: "number \<Rightarrow> number" where
  "inverse_number (Num a) = (if a = 0 then PosInf else Num (1 / a))"
| "inverse_number PosInf = Num 0"
| "inverse_number NegInf = Num 0"
| "inverse_number NaN = NaN"

fun less_number :: "number \<Rightarrow> number \<Rightarrow> bool" where
  "less_number NaN _ = False"
| "less_number _ NaN = False"
| "less_number (Num a) (Num b) = (a < b)"
| "less_number NegInf NegInf = False"
| "less_number NegInf _ = True"
| "less_number PosInf _ = False"
| "less_number (Num a) PosInf = True"
| "less_number (Num a) NegInf = False"

fun less_eq_number :: "number \<Rightarrow> number \<Rightarrow> bool" where
  "less_eq_number NaN _ = False"
| "less_eq_number _ NaN = False"
| "less_eq_number (Num a) (Num b) = (a \<le> b)"
| "less_eq_number NegInf _ = True"
| "less_eq_number PosInf PosInf = True"
| "less_eq_number PosInf _ = False"
| "less_eq_number (Num a) PosInf = True"
| "less_eq_number (Num a) NegInf = False"

instance ..

end

text \<open>Addition is associative and commutative with the neutral element zero.\<close>

instance number :: comm_monoid_add
proof
  fix u v w :: number
  show "u + v = v + u"
    by (cases u; cases v; simp)
  show "u + v + w = u + (v + w)"
    by (cases u; cases v; cases w; simp)
  show "0 + u = u"
    unfolding zero_number_def by (cases u; simp)
qed

text \<open>Strict equality \<^verbatim>\<open>===\<close> on numbers: \<^verbatim>\<open>NaN\<close> is not equal to itself.\<close>

definition strict_eq :: "number \<Rightarrow> number \<Rightarrow> bool" where
  "strict_eq a b = (\<not> isNaN a \<and> \<not> isNaN b \<and> a = b)"


text \<open>The functions of \<^verbatim>\<open>Math\<close> that the engine calls.\<close>

fun Math_abs :: "number \<Rightarrow> number" where
  "Math_abs (Num a) = Num \<bar>a\<bar>"
| "Math_abs PosInf = PosInf"
| "Math_abs NegInf = PosInf"
| "Math_abs NaN = NaN"

fun Math_sqrt :: "number \<Rightarrow> number" where
  "Math_sqrt (Num a) = (if a < 0 then NaN else Num (sqrt a))"
| "Math_sqrt PosInf = PosInf"
| "Math_sqrt _ = NaN"

fun Math_cos :: "number \<Rightarrow> number" where
  "Math_cos (Num a) = Num (cos a)"
| "Math_cos _ = NaN"

fun Math_sin :: "number \<Rightarrow> number" where
  "Math_sin (Num a) = Num (sin a)"
| "Math_sin _ = NaN"

fun Math_tan :: "number \<Rightarrow> number" where
  "Math_tan (Num a) = Num (tan a)"
| "Math_tan _ = NaN"

fun Math_acos :: "number \<Rightarrow> number" where
  "Math_acos (Num a) = (if - 1 \<le> a \<and> a \<le> 1 then Num (arccos a) else NaN)"
| "Math_acos _ = NaN"

fun Math_ceil :: "number \<Rightarrow> number" where
  "Math_ceil (Num a) = Num (of_int \<lceil>a\<rceil>)"
| "Math_ceil a = a"

definition Math_min :: "number \<Rightarrow> number \<Rightarrow> number" where
  "Math_min a b = (if isNaN a \<or> isNaN b then NaN else if b < a then b else a)"

definition Math_max :: "number \<Rightarrow> number \<Rightarrow> number" where
  "Math_max a b = (if isNaN a \<or> isNaN b then NaN else if a < b then b else a)"

definition Math_PI :: number where
  "Math_PI = Num pi"

section \<open>The command model (types.ts)\<close>

text \<open>
  The tagged union \<^verbatim>\<open>IconPathCommand\<close>; the constructors carry the names of its
  variants and the payload in the order of the variants' fields:
  \<^verbatim>\<open>M x y\<close>, \<^verbatim>\<open>L x y\<close>, \<^verbatim>\<open>H x\<close>, \<^verbatim>\<open>V y\<close>, \<^verbatim>\<open>Q x1 y1 x y\<close>, \<^verbatim>\<open>C x1 y1 x2 y2 x y\<close>,
  \<^verbatim>\<open>T x y\<close>, \<^verbatim>\<open>S x2 y2 x y\<close>, \<^verbatim>\<open>Z\<close>.
\<close>

datatype IconPathCommand =
    MoveCommand number number
  | LineCommand number number
  | HCommand number
  | VCommand number
  | QuadCommand number number number number
  | CubicCommand number number number number number number
  | SmoothQuadCommand number number
  | SmoothCubicCommand number number number number
  | CloseCommand

text \<open>The \<^verbatim>\<open>type\<close> field of a command.\<close>

fun cmd_type :: "IconPathCommand \<Rightarrow> string" where
  "cmd_type (MoveCommand _ _) = ''M''"
| "cmd_type (LineCommand _ _) = ''L''"
| "cmd_type (HCommand _) = ''H''"
| "cmd_type (VCommand _) = ''V''"
| "cmd_type (QuadCommand _ _ _ _) = ''Q''"
| "cmd_type (CubicCommand _ _ _ _ _ _) = ''C''"
| "cmd_type (SmoothQuadCommand _ _) = ''T''"
| "cmd_type (SmoothCubicCommand _ _ _ _) = ''S''"
| "cmd_type CloseCommand = ''Z''"


type_synonym Point = "number \<times> number"

record IconPathBounds =
  minX :: number
  minY :: number
  maxX :: number
  maxY :: number

section \<open>The path builder (class IconPath)\<close>

record IconPath =
  width :: number
  height :: number
  commands :: "IconPathCommand list"

text \<open>The constructor \<^verbatim>\<open>new IconPath(width = 24, height = width, commands = [])\<close>.\<close>

definition new_IconPath :: "number \<Rightarrow> number \<Rightarrow> IconPathCommand list \<Rightarrow> IconPath" where
  "new_IconPath w h cs = \<lparr>width = w, height = h, commands = cs\<rparr>"

text \<open>
  The append operations \<^verbatim>\<open>m\<close>, \<^verbatim>\<open>l\<close>, \<^verbatim>\<open>q\<close>, \<^verbatim>\<open>c\<close>, \<^verbatim>\<open>h\<close>, \<^verbatim>\<open>v\<close>, \<^verbatim>\<open>t\<close>, \<^verbatim>\<open>s\<close> and
  \<^verbatim>\<open>close\<close>: each pushes one command and returns the path.
\<close>

definition push :: "IconPathCommand \<Rightarrow> IconPath \<Rightarrow> IconPath" where
  "push cmd p = p\<lparr>commands := commands p @ [cmd]\<rparr>"

definition path_m :: "number \<Rightarrow> number \<Rightarrow> IconPath \<Rightarrow> IconPath" where
  "path_m x y p = push (MoveCommand x y) p"

definition path_l :: "number \<Rightarrow> number \<Rightarrow> IconPath \<Rightarrow> IconPath" where
  "path_l x y p = push (LineCommand x y) p"

definition path_q :: "number \<Rightarrow> number \<Rightarrow> number \<Rightarrow> number \<Rightarrow> IconPath \<Rightarrow> IconPath" where
  "path_q x1 y1 x y p = push (QuadCommand x1 y1 x y) p"


definition path_h :: "number \<Rightarrow> IconPath \<Rightarrow> IconPath" where
  "path_h x p = push (HCommand x) p"

definition path_v :: "number \<Rightarrow> IconPath \<Rightarrow> IconPath" where
  "path_v y p = push (VCommand y) p"



definition close :: "IconPath \<Rightarrow> IconPath" where
  "close p = push CloseCommand p"

section \<open>The geometry transform engine\<close>

text \<open>\<^verbatim>\<open>_mapCoords\<close>: the command list is replaced by its image, command by command.\<close>

fun mapCmd :: "(number \<Rightarrow> number \<Rightarrow> Point) \<Rightarrow> IconPathCommand \<Rightarrow> IconPathCommand" where
  "mapCmd fn (MoveCommand x y) = (let p = fn x y in MoveCommand (fst p) (snd p))"
| "mapCmd fn (LineCommand x y) = (let p = fn x y in LineCommand (fst p) (snd p))"
| "mapCmd fn (SmoothQuadCommand x y) = (let p = fn x y in SmoothQuadCommand (fst p) (snd p))"
| "mapCmd fn (HCommand x) = (let p = fn x (Num 0) in HCommand (fst p))"
| "mapCmd fn (VCommand y) = (let p = fn (Num 0) y in VCommand (snd p))"
| "mapCmd fn (QuadCommand x1 y1 x y) =
     (let c = fn x1 y1; p = fn x y in QuadCommand (fst c) (snd c) (fst p) (snd p))"
| "mapCmd fn (CubicCommand x1 y1 x2 y2 x y) =
     (let c1 = fn x1 y1; c2 = fn x2 y2; p = fn x y
      in CubicCommand (fst c1) (snd c1) (fst c2) (snd c2) (fst p) (snd p))"
| "mapCmd fn (SmoothCubicCommand x2 y2 x y) =
     (let c2 = fn x2 y2; p = fn x y in SmoothCubicCommand (fst c2) (snd c2) (fst p) (snd p))"
| "mapCmd fn CloseCommand = CloseCommand"

definition mapCoords :: "(number \<Rightarrow> number \<Rightarrow> Point) \<Rightarrow> IconPath \<Rightarrow> IconPath" where
  "mapCoords fn p = p\<lparr>commands := map (mapCmd fn) (commands p)\<rparr>"

text \<open>
  \<^verbatim>\<open>scale(sx, sy = sx, cx = width / 2, cy = height / 2)\<close>; \<open>scale_default\<close> is the call
  with the pivot left out, as \<^verbatim>\<open>fit\<close> makes it.
\<close>

definition scale :: "number \<Rightarrow> number \<Rightarrow> number \<Rightarrow> number \<Rightarrow> IconPath \<Rightarrow> IconPath" where
  "scale sx sy cx cy p =
     mapCoords (\<lambda>x y. let dx = x - cx; dy = y - cy in (dx * sx + cx, dy * sy + cy)) p"

definition scale_default :: "number \<Rightarrow> number \<Rightarrow> IconPath \<Rightarrow> IconPath" where
  "scale_default sx sy p = scale sx sy (width p / Num 2) (height p / Num 2) p"

definition translate :: "number \<Rightarrow> number \<Rightarrow> IconPath \<Rightarrow> IconPath" where
  "translate dx dy p = mapCoords (\<lambda>x y. (x + dx, y + dy)) p"

text \<open>\<^verbatim>\<open>rotate(angle, cx = 0, cy = 0)\<close>.\<close>

definition rotate :: "number \<Rightarrow> number \<Rightarrow> number \<Rightarrow> IconPath \<Rightarrow> IconPath" where
  "rotate angle cx cy p =
     (let cos = Math_cos angle; sin = Math_sin angle
      in mapCoords (\<lambda>x y.
           let dx = x - cx; dy = y - cy;
               rx = dx * cos - dy * sin;
               ry = dx * sin + dy * cos
           in (rx + cx, ry + cy)) p)"

definition rotateDeg :: "number \<Rightarrow> number \<Rightarrow> number \<Rightarrow> IconPath \<Rightarrow> IconPath" where
  "rotateDeg angleDeg cx cy p = rotate ((Math_PI / Num 180) * angleDeg) cx cy p"

text \<open>\<^verbatim>\<open>flipX(width = this.width)\<close> and \<^verbatim>\<open>flipY(height = this.height)\<close>.\<close>

definition flipX :: "number \<Rightarrow> IconPath \<Rightarrow> IconPath" where
  "flipX w p = mapCoords (\<lambda>x y. (w - x, y)) p"

definition flipY :: "number \<Rightarrow> IconPath \<Rightarrow> IconPath" where
  "flipY h p = mapCoords (\<lambda>x y. (x, h - y)) p"

section \<open>The bounds calculator\<close>

text \<open>
  \<^verbatim>\<open>getCommandBounds\<close> collects, per command, the fields \<^verbatim>\<open>x\<close>, \<^verbatim>\<open>x1\<close>, \<^verbatim>\<open>x2\<close> (and
  \<^verbatim>\<open>y\<close>, \<^verbatim>\<open>y1\<close>, \<^verbatim>\<open>y2\<close>) that the command has, in this order, and lowers the minimum and
  raises the maximum by comparisons; a comparison with \<^verbatim>\<open>NaN\<close> is false.
\<close>

fun cmd_xs :: "IconPathCommand \<Rightarrow> number list" where
  "cmd_xs (MoveCommand x y) = [x]"
| "cmd_xs (LineCommand x y) = [x]"
| "cmd_xs (HCommand x) = [x]"
| "cmd_xs (VCommand y) = []"
| "cmd_xs (QuadCommand x1 y1 x y) = [x, x1]"
| "cmd_xs (CubicCommand x1 y1 x2 y2 x y) = [x, x1, x2]"
| "cmd_xs (SmoothQuadCommand x y) = [x]"
| "cmd_xs (SmoothCubicCommand x2 y2 x y) = [x, x2]"
| "cmd_xs CloseCommand = []"

fun cmd_ys :: "IconPathCommand \<Rightarrow> number list" where
  "cmd_ys (MoveCommand x y) = [y]"
| "cmd_ys (LineCommand x y) = [y]"
| "cmd_ys (HCommand x) = []"
| "cmd_ys (VCommand y) = [y]"
| "cmd_ys (QuadCommand x1 y1 x y) = [y, y1]"
| "cmd_ys (CubicCommand x1 y1 x2 y2 x y) = [y, y1, y2]"
| "cmd_ys (SmoothQuadCommand x y) = [y]"
| "cmd_ys (SmoothCubicCommand x2 y2 x y) = [y, y2]"
| "cmd_ys CloseCommand = []"

text \<open>One pass of \<^verbatim>\<open>if (x < min) min = x; if (x > max) max = x\<close> over a list of values.\<close>

definition minmax_step :: "number \<times> number \<Rightarrow> number \<Rightarrow> number \<times> number" where
  "minmax_step mm x =
     (let mn = (if x < fst mm then x else fst mm);
          mx = (if snd mm < x then x else snd mm)
      in (mn, mx))"

definition bounds_step :: "IconPathBounds \<Rightarrow> IconPathCommand \<Rightarrow> IconPathBounds" where
  "bounds_step b cmd =
     (let xr = foldl minmax_step (minX b, maxX b) (cmd_xs cmd);
          yr = foldl minmax_step (minY b, maxY b) (cmd_ys cmd)
      in \<lparr>minX = fst xr, minY = fst yr, maxX = snd xr, maxY = snd yr\<rparr>)"

definition getCommandBounds :: "IconPath \<Rightarrow> IconPathBounds" where
  "getCommandBounds p =
     foldl bounds_step \<lparr>minX = PosInf, minY = PosInf, maxX = NegInf, maxY = NegInf\<rparr> (commands p)"

definition getCanvasBounds :: "IconPath \<Rightarrow> IconPathBounds" where
  "getCanvasBounds p = \<lparr>minX = Num 0, minY = Num 0, maxX = width p, maxY = height p\<rparr>"

text \<open>
  \<^verbatim>\<open>center(minX = 0, minY = 0, maxX = this.width, maxY = this.height)\<close>; \<open>center_default\<close>
  is the call without arguments.
\<close>

definition center :: "number \<Rightarrow> number \<Rightarrow> number \<Rightarrow> number \<Rightarrow> IconPath \<Rightarrow> IconPath" where
  "center mnX mnY mxX mxY p =
     (let bounds = getCommandBounds p;
          shapeWidth = maxX bounds - minX bounds;
          shapeHeight = maxY bounds - minY bounds;
          targetWidth = mxX - mnX;
          targetHeight = mxY - mnY;
          dx = mnX + (targetWidth - shapeWidth) / Num 2 - minX bounds;
          dy = mnY + (targetHeight - shapeHeight) / Num 2 - minY bounds
      in translate dx dy p)"

definition center_default :: "IconPath \<Rightarrow> IconPath" where
  "center_default p = center (Num 0) (Num 0) (width p) (height p) p"

text \<open>
  \<^verbatim>\<open>fit(preserveAspect = true)\<close>: the path is centred first; the early return on a zero
  shape width or height hands back the centred path.
\<close>

definition fit :: "bool \<Rightarrow> IconPath \<Rightarrow> IconPath" where
  "fit preserveAspect p0 =
     (let p = center_default p0;
          cmdBounds = getCommandBounds p;
          canvasBounds = getCanvasBounds p;
          shapeWidth = maxX cmdBounds - minX cmdBounds;
          shapeHeight = maxY cmdBounds - minY cmdBounds;
          canvasWidth = maxX canvasBounds - minX canvasBounds;
          canvasHeight = maxY canvasBounds - minY canvasBounds
      in if strict_eq shapeWidth (Num 0) \<or> strict_eq shapeHeight (Num 0) then p
         else
           let sx = canvasWidth / shapeWidth;
               sy = canvasHeight / shapeHeight;
               s = Math_min sx sy
           in if preserveAspect then scale_default s s p else scale_default sx sy p)"

text \<open>
  The x-like and the y-like values of a command list, in the order in which
  \<^verbatim>\<open>getCommandBounds\<close> meets them, and the paths all of whose coordinates are finite.
\<close>

definition all_xs :: "IconPathCommand list \<Rightarrow> number list" where
  "all_xs cs = concat (map cmd_xs cs)"

definition all_ys :: "IconPathCommand list \<Rightarrow> number list" where
  "all_ys cs = concat (map cmd_ys cs)"

definition finite_commands :: "IconPathCommand list \<Rightarrow> bool" where
  "finite_commands cs = (list_all isFinite (all_xs cs) \<and> list_all isFinite (all_ys cs))"

section \<open>The arc converter\<close>

text \<open>
  The helper \<^verbatim>\<open>unitAngle\<close> of \<^verbatim>\<open>arcToCubic\<close>: the signed angle between two vectors,
  with the dot product clamped to \<open>[-1, 1]\<close>.
\<close>

definition unitAngle :: "number \<Rightarrow> number \<Rightarrow> number \<Rightarrow> number \<Rightarrow> number" where
  "unitAngle ux uy vx vy =
     (let sign = (if ux * vy - uy * vx < Num 0 then Num (- 1) else Num 1);
          dot0 = ux * vx + uy * vy;
          dot1 = (if Num 1 < dot0 then Num 1 else dot0);
          dot = (if dot1 < Num (- 1) then Num (- 1) else dot1)
      in sign * Math_acos dot)"

text \<open>
  One turn of the segment loop: the cubic for the sweep from \<open>t1\<close> to \<open>t1 + dTheta\<close>, and
  the new \<^verbatim>\<open>theta1\<close>.
\<close>

definition arc_segment ::
  "number \<Rightarrow> number \<Rightarrow> number \<Rightarrow> number \<Rightarrow> number \<Rightarrow> number \<Rightarrow> number \<Rightarrow> number
     \<Rightarrow> IconPathCommand \<times> number" where
  "arc_segment cx cy rx ry cosPhi sinPhi t1 dTheta =
     (let t2 = t1 + dTheta;
          cosT1 = Math_cos t1; sinT1 = Math_sin t1;
          cosT2 = Math_cos t2; sinT2 = Math_sin t2;
          p2x = cx + rx * (cosPhi * cosT2) - ry * (sinPhi * sinT2);
          p2y = cy + rx * (sinPhi * cosT2) + ry * (cosPhi * sinT2);
          p1x = cx + rx * (cosPhi * cosT1) - ry * (sinPhi * sinT1);
          p1y = cy + rx * (sinPhi * cosT1) + ry * (cosPhi * sinT1);
          d1x = - rx * cosPhi * sinT1 - ry * sinPhi * cosT1;
          d1y = - rx * sinPhi * sinT1 + ry * cosPhi * cosT1;
          d2x = - rx * cosPhi * sinT2 - ry * sinPhi * cosT2;
          d2y = - rx * sinPhi * sinT2 + ry * cosPhi * cosT2;
          alpha = (Num 4 / Num 3) * Math_tan ((t2 - t1) / Num 4);
          c1x = p1x + alpha * d1x;
          c1y = p1y + alpha * d1y;
          c2x = p2x - alpha * d2x;
          c2y = p2y - alpha * d2y
      in (CubicCommand c1x c1y c2x c2y p2x p2y, t2))"

fun arc_loop ::
  "nat \<Rightarrow> number \<Rightarrow> number \<Rightarrow> number \<Rightarrow> number \<Rightarrow> number \<Rightarrow> number \<Rightarrow> number \<Rightarrow> number
     \<Rightarrow> IconPathCommand list" where
  "arc_loop 0 cx cy rx ry cosPhi sinPhi theta1 dTheta = []"
| "arc_loop (Suc n) cx cy rx ry cosPhi sinPhi theta1 dTheta =
     (let r = arc_segment cx cy rx ry cosPhi sinPhi theta1 dTheta
      in fst r # arc_loop n cx cy rx ry cosPhi sinPhi (snd r) dTheta)"

text \<open>
  How often \<^verbatim>\<open>for (let i = 0; i < segments; i++)\<close> runs: the number of naturals below
  \<open>segments\<close>; none when the comparison is with \<^verbatim>\<open>NaN\<close>, and without end (\<open>None\<close>) for
  \<^verbatim>\<open>Infinity\<close>.
\<close>

fun loop_count :: "number \<Rightarrow> nat option" where
  "loop_count (Num s) = Some (nat \<lceil>s\<rceil>)"
| "loop_count PosInf = None"
| "loop_count NegInf = Some 0"
| "loop_count NaN = Some 0"

text \<open>
  The end of \<^verbatim>\<open>arcToCubic\<close>, from the two angles on: the sweep is adjusted to the sweep
  flag, split into segments of at most a quarter turn, and the segment loop is run.
\<close>

definition arc_emit ::
  "number \<Rightarrow> number \<Rightarrow> number \<Rightarrow> number \<Rightarrow> number \<Rightarrow> number \<Rightarrow> number \<Rightarrow> number \<Rightarrow> number
     \<Rightarrow> IconPathCommand list option" where
  "arc_emit cx cy rx ry cosPhi sinPhi sweepFlag theta1 deltaTheta0 =
     (let deltaTheta1 = (if strict_eq sweepFlag (Num 0) \<and> Num 0 < deltaTheta0
                         then deltaTheta0 - Math_PI * Num 2 else deltaTheta0);
          deltaTheta = (if strict_eq sweepFlag (Num 1) \<and> deltaTheta1 < Num 0
                        then deltaTheta1 + Math_PI * Num 2 else deltaTheta1);
          segments = Math_max (Math_ceil (Math_abs deltaTheta / (Math_PI / Num 2))) (Num 1);
          dTheta = deltaTheta / segments
      in map_option (\<lambda>n. arc_loop n cx cy rx ry cosPhi sinPhi theta1 dTheta)
           (loop_count segments))"

definition arcToCubic ::
  "number \<Rightarrow> number \<Rightarrow> number \<Rightarrow> number \<Rightarrow> number \<Rightarrow> number \<Rightarrow> number \<Rightarrow> number \<Rightarrow> number
     \<Rightarrow> IconPathCommand list option" where
  "arcToCubic x0 y0 rx0 ry0 xAxisRotation largeArcFlag sweepFlag x y =
     (if strict_eq x0 x \<and> strict_eq y0 y then Some []
      else if strict_eq rx0 (Num 0) \<or> strict_eq ry0 (Num 0)
        then Some [CubicCommand x0 y0 x y x y]
      else
        let phi = (Math_PI / Num 180) * xAxisRotation;
            cosPhi = Math_cos phi;
            sinPhi = Math_sin phi;
            dx2 = (x0 - x) / Num 2;
            dy2 = (y0 - y) / Num 2;
            x1p = cosPhi * dx2 + sinPhi * dy2;
            y1p = - sinPhi * dx2 + cosPhi * dy2;
            rx1 = Math_abs rx0;
            ry1 = Math_abs ry0;
            lambda = (x1p * x1p) / (rx1 * rx1) + (y1p * y1p) / (ry1 * ry1);
            rx = (if Num 1 < lambda then rx1 * Math_sqrt lambda else rx1);
            ry = (if Num 1 < lambda then ry1 * Math_sqrt lambda else ry1);
            rxSq = rx * rx;
            rySq = ry * ry;
            x1pSq = x1p * x1p;
            y1pSq = y1p * y1p;
            radicant0 = rxSq * rySq - rxSq * y1pSq - rySq * x1pSq;
            radicant1 = (if radicant0 < Num 0 then Num 0 else radicant0);
            radicant2 = radicant1 / (rxSq * y1pSq + rySq * x1pSq);
            radicant = Math_sqrt radicant2
                         * (if strict_eq largeArcFlag sweepFlag then Num (- 1) else Num 1);
            cxp = (radicant * rx * y1p) / ry;
            cyp = (radicant * - ry * x1p) / rx;
            cx = cosPhi * cxp - sinPhi * cyp + (x0 + x) / Num 2;
            cy = sinPhi * cxp + cosPhi * cyp + (y0 + y) / Num 2;
            v1x = (x1p - cxp) / rx;
            v1y = (y1p - cyp) / ry;
            v2x = (- x1p - cxp) / rx;
            v2y = (- y1p - cyp) / ry
        in arc_emit cx cy rx ry cosPhi sinPhi sweepFlag
             (unitAngle (Num 1) (Num 0) v1x v1y) (unitAngle v1x v1y v2x v2y))"

text \<open>
  Three points are collinear when the cross product of the two difference vectors from
  the first point is zero.
\<close>

definition collinear :: "Point \<Rightarrow> Point \<Rightarrow> Point \<Rightarrow> bool" where
  "collinear a b c =
     strict_eq ((fst b - fst a) * (snd c - snd a) - (snd b - snd a) * (fst c - fst a)) (Num 0)"

text \<open>
  \<^verbatim>\<open>a(rx, ry, xAxisRotation, largeArcFlag, sweepFlag, x, y)\<close> pushes the cubic segments of
  the arc from the current point; \<open>None\<close> stands for a call that does not return.
\<close>

fun currentPoint_step :: "(Point \<times> Point) \<Rightarrow> IconPathCommand \<Rightarrow> (Point \<times> Point)" where
  "currentPoint_step (pos, start) (MoveCommand x y) = ((x, y), (x, y))"
| "currentPoint_step (pos, start) (LineCommand x y) = ((x, y), start)"
| "currentPoint_step (pos, start) (SmoothQuadCommand x y) = ((x, y), start)"
| "currentPoint_step (pos, start) (HCommand x) = ((x, snd pos), start)"
| "currentPoint_step (pos, start) (VCommand y) = ((fst pos, y), start)"
| "currentPoint_step (pos, start) (QuadCommand x1 y1 x y) = ((x, y), start)"
| "currentPoint_step (pos, start) (CubicCommand x1 y1 x2 y2 x y) = ((x, y), start)"
| "currentPoint_step (pos, start) (SmoothCubicCommand x2 y2 x y) = ((x, y), start)"
| "currentPoint_step (pos, start) CloseCommand = (start, start)"

text \<open>
  \<^verbatim>\<open>getCurrentPoint\<close> replays the commands: the pair is the pen position and the start
  of the active subpath, both at the origin before the first command.
\<close>

definition currentPoint_of :: "IconPathCommand list \<Rightarrow> Point" where
  "currentPoint_of cs = fst (foldl currentPoint_step ((Num 0, Num 0), (Num 0, Num 0)) cs)"

definition getCurrentPoint :: "IconPath \<Rightarrow> Point" where
  "getCurrentPoint p = (if commands p = [] then (Num 0, Num 0) else currentPoint_of (commands p))"


section \<open>The canonicalizer\<close>

text \<open>
  The variables of the loop of \<^verbatim>\<open>getOpenTypeCommands\<close>: the tracked point \<^verbatim>\<open>cx\<close>,
  \<^verbatim>\<open>cy\<close> and the last quadratic and cubic control points, each \<^verbatim>\<open>null\<close> (\<open>None\<close>) or a
  number.
\<close>

record canon_state =
  canon_cx :: number
  canon_cy :: number
  lastQuadCtrlX :: "number option"
  lastQuadCtrlY :: "number option"
  lastCubicCtrlX :: "number option"
  lastCubicCtrlY :: "number option"

definition canon_init :: canon_state where
  "canon_init = \<lparr>canon_cx = Num 0, canon_cy = Num 0,
                  lastQuadCtrlX = None, lastQuadCtrlY = None,
                  lastCubicCtrlX = None, lastCubicCtrlY = None\<rparr>"

text \<open>
  One turn of the loop: the new variables and the command pushed to \<^verbatim>\<open>out\<close> (every case
  pushes exactly one).  The case \<^verbatim>\<open>Z\<close> leaves \<^verbatim>\<open>cx\<close> and \<^verbatim>\<open>cy\<close> as they are.
\<close>

fun canon_step :: "canon_state \<Rightarrow> IconPathCommand \<Rightarrow> canon_state \<times> IconPathCommand" where
  "canon_step st (MoveCommand x y) =
     (st\<lparr>canon_cx := x, canon_cy := y,
         lastQuadCtrlX := None, lastQuadCtrlY := None,
         lastCubicCtrlX := None, lastCubicCtrlY := None\<rparr>,
      MoveCommand x y)"
| "canon_step st (LineCommand x y) =
     (st\<lparr>canon_cx := x, canon_cy := y,
         lastQuadCtrlX := None, lastQuadCtrlY := None,
         lastCubicCtrlX := None, lastCubicCtrlY := None\<rparr>,
      LineCommand x y)"
| "canon_step st (HCommand x) =
     (st\<lparr>canon_cx := x,
         lastQuadCtrlX := None, lastQuadCtrlY := None,
         lastCubicCtrlX := None, lastCubicCtrlY := None\<rparr>,
      LineCommand x (canon_cy st))"
| "canon_step st (VCommand y) =
     (st\<lparr>canon_cy := y,
         lastQuadCtrlX := None, lastQuadCtrlY := None,
         lastCubicCtrlX := None, lastCubicCtrlY := None\<rparr>,
      LineCommand (canon_cx st) y)"
| "canon_step st (QuadCommand x1 y1 x y) =
     (st\<lparr>canon_cx := x, canon_cy := y,
         lastQuadCtrlX := Some x1, lastQuadCtrlY := Some y1,
         lastCubicCtrlX := None, lastCubicCtrlY := None\<rparr>,
      QuadCommand x1 y1 x y)"
| "canon_step st (SmoothQuadCommand x y) =
     (let rx = (case lastQuadCtrlX st of Some qx \<Rightarrow> Num 2 * canon_cx st - qx | None \<Rightarrow> canon_cx st);
          ry = (case lastQuadCtrlY st of Some qy \<Rightarrow> Num 2 * canon_cy st - qy | None \<Rightarrow> canon_cy st)
      in (st\<lparr>canon_cx := x, canon_cy := y,
             lastQuadCtrlX := Some rx, lastQuadCtrlY := Some ry,
             lastCubicCtrlX := None, lastCubicCtrlY := None\<rparr>,
          QuadCommand rx ry x y))"
| "canon_step st (CubicCommand x1 y1 x2 y2 x y) =
     (st\<lparr>canon_cx := x, canon_cy := y,
         lastCubicCtrlX := Some x2, lastCubicCtrlY := Some y2,
         lastQuadCtrlX := None, lastQuadCtrlY := None\<rparr>,
      CubicCommand x1 y1 x2 y2 x y)"
| "canon_step st (SmoothCubicCommand x2 y2 x y) =
     (let rxC = (case lastCubicCtrlX st of Some qx \<Rightarrow> Num 2 * canon_cx st - qx | None \<Rightarrow> canon_cx st);
          ryC = (case lastCubicCtrlY st of Some qy \<Rightarrow> Num 2 * canon_cy st - qy | None \<Rightarrow> canon_cy st)
      in (st\<lparr>canon_cx := x, canon_cy := y,
             lastCubicCtrlX := Some x2, lastCubicCtrlY := Some y2,
             lastQuadCtrlX := None, lastQuadCtrlY := None\<rparr>,
          CubicCommand rxC ryC x2 y2 x y))"
| "canon_step st CloseCommand =
     (st\<lparr>lastQuadCtrlX := None, lastQuadCtrlY := None,
         lastCubicCtrlX := None, lastCubicCtrlY := None\<rparr>,
      CloseCommand)"

fun canon_loop :: "canon_state \<Rightarrow> IconPathCommand list \<Rightarrow> IconPathCommand list" where
  "canon_loop st [] = []"
| "canon_loop st (c # cs) = (let r = canon_step st c in snd r # canon_loop (fst r) cs)"

definition getOpenTypeCommands :: "IconPath \<Rightarrow> IconPathCommand list" where
  "getOpenTypeCommands p = canon_loop canon_init (commands p)"

section \<open>The winding normalizer\<close>

text \<open>
  \<^verbatim>\<open>splitSubpaths\<close>: the pair is \<^verbatim>\<open>parts\<close> and \<^verbatim>\<open>current\<close>.  An M closes a non-empty
  \<^verbatim>\<open>current\<close> whose last command is not a Z; a Z closes \<^verbatim>\<open>current\<close> after being pushed to
  it; what is left at the end is the last part.
\<close>

definition split_step ::
  "IconPathCommand list list \<times> IconPathCommand list \<Rightarrow> IconPathCommand
     \<Rightarrow> IconPathCommand list list \<times> IconPathCommand list" where
  "split_step st c =
     (let st1 = (if cmd_type c = ''M'' \<and> snd st \<noteq> [] \<and> cmd_type (last (snd st)) \<noteq> ''Z''
                 then (fst st @ [snd st], []) else st);
          current = snd st1 @ [c]
      in if cmd_type c = ''Z'' then (fst st1 @ [current], []) else (fst st1, current))"

definition splitSubpaths :: "IconPathCommand list \<Rightarrow> IconPathCommand list list" where
  "splitSubpaths cs =
     (let st = foldl split_step ([], []) cs
      in if snd st \<noteq> [] then fst st @ [snd st] else fst st)"

text \<open>
  \<^verbatim>\<open>getSignedAreaFontSpace\<close>: the endpoints of the M, L, Q and C commands with Y flipped
  against the height, then the shoelace sum over the cyclic sequence of the points, in
  the order of the loop.
\<close>

fun area_point :: "number \<Rightarrow> IconPathCommand \<Rightarrow> Point list" where
  "area_point h (MoveCommand x y) = [(x, h - y)]"
| "area_point h (LineCommand x y) = [(x, h - y)]"
| "area_point h (QuadCommand x1 y1 x y) = [(x, h - y)]"
| "area_point h (CubicCommand x1 y1 x2 y2 x y) = [(x, h - y)]"
| "area_point h _ = []"


definition shoelace :: "Point list \<Rightarrow> number" where
  "shoelace pts =
     foldl (\<lambda>area i.
              let a = pts ! i; b = pts ! ((i + 1) mod length pts)
              in area + (fst a * snd b - fst b * snd a))
       (Num 0) [0..<length pts]"

definition getSignedAreaFontSpace :: "IconPath \<Rightarrow> IconPathCommand list \<Rightarrow> number" where
  "getSignedAreaFontSpace p sub = shoelace (concat (map (area_point (height p)) sub)) / Num 2"

text \<open>
  \<^verbatim>\<open>reverseSubpath\<close>.  The first loop records the endpoint of every command (\<open>None\<close> for
  a command that has none) while tracking \<^verbatim>\<open>cx\<close>, \<^verbatim>\<open>cy\<close>; \<^verbatim>\<open>verts\<close> are the endpoints
  that exist.  The switch has no case for T and S: they get no endpoint and, in the
  second loop, no output.
\<close>

fun endpoint_step :: "Point \<Rightarrow> IconPathCommand \<Rightarrow> Point \<times> Point option" where
  "endpoint_step cur (MoveCommand x y) = ((x, y), Some (x, y))"
| "endpoint_step cur (LineCommand x y) = ((x, y), Some (x, y))"
| "endpoint_step cur (HCommand x) = ((x, snd cur), Some (x, snd cur))"
| "endpoint_step cur (VCommand y) = ((fst cur, y), Some (fst cur, y))"
| "endpoint_step cur (QuadCommand x1 y1 x y) = ((x, y), Some (x, y))"
| "endpoint_step cur (CubicCommand x1 y1 x2 y2 x y) = ((x, y), Some (x, y))"
| "endpoint_step cur CloseCommand = (cur, None)"
| "endpoint_step cur _ = (cur, None)"

fun endpoints_from :: "Point \<Rightarrow> IconPathCommand list \<Rightarrow> Point option list" where
  "endpoints_from cur [] = []"
| "endpoints_from cur (c # cs) =
     (let r = endpoint_step cur c in snd r # endpoints_from (fst r) cs)"

text \<open>
  \<^verbatim>\<open>prevEndpoint(i)\<close>: the nearest endpoint before index \<open>i\<close>, or the first vertex.  It
  is only called when \<^verbatim>\<open>verts\<close> is not empty.
\<close>

fun prevEndpoint :: "Point option list \<Rightarrow> Point list \<Rightarrow> nat \<Rightarrow> Point" where
  "prevEndpoint endpoints verts 0 = hd verts"
| "prevEndpoint endpoints verts (Suc j) =
     (case endpoints ! j of Some ep \<Rightarrow> ep | None \<Rightarrow> prevEndpoint endpoints verts j)"

text \<open>
  What the second loop pushes for the command at index \<open>i\<close>; \<open>out\<close> is never empty there
  and holds M, L, Q and C commands only, so the field read from its last command exists.
\<close>

fun cmd_x :: "IconPathCommand \<Rightarrow> number option" where
  "cmd_x (MoveCommand x y) = Some x"
| "cmd_x (LineCommand x y) = Some x"
| "cmd_x (HCommand x) = Some x"
| "cmd_x (VCommand y) = None"
| "cmd_x (QuadCommand x1 y1 x y) = Some x"
| "cmd_x (CubicCommand x1 y1 x2 y2 x y) = Some x"
| "cmd_x (SmoothQuadCommand x y) = Some x"
| "cmd_x (SmoothCubicCommand x2 y2 x y) = Some x"
| "cmd_x CloseCommand = None"

fun cmd_y :: "IconPathCommand \<Rightarrow> number option" where
  "cmd_y (MoveCommand x y) = Some y"
| "cmd_y (LineCommand x y) = Some y"
| "cmd_y (HCommand x) = None"
| "cmd_y (VCommand y) = Some y"
| "cmd_y (QuadCommand x1 y1 x y) = Some y"
| "cmd_y (CubicCommand x1 y1 x2 y2 x y) = Some y"
| "cmd_y (SmoothQuadCommand x y) = Some y"
| "cmd_y (SmoothCubicCommand x2 y2 x y) = Some y"
| "cmd_y CloseCommand = None"

fun reverse_emit :: "IconPathCommand list \<Rightarrow> Point \<Rightarrow> IconPathCommand \<Rightarrow> IconPathCommand list" where
  "reverse_emit out prev (LineCommand x y) = [LineCommand (fst prev) (snd prev)]"
| "reverse_emit out prev (HCommand x) =
     [LineCommand (fst prev) (case cmd_y (last out) of Some ly \<Rightarrow> ly | None \<Rightarrow> snd prev)]"
| "reverse_emit out prev (VCommand y) =
     [LineCommand (case cmd_x (last out) of Some lx \<Rightarrow> lx | None \<Rightarrow> fst prev) (snd prev)]"
| "reverse_emit out prev (QuadCommand x1 y1 x y) = [QuadCommand x1 y1 (fst prev) (snd prev)]"
| "reverse_emit out prev (CubicCommand x1 y1 x2 y2 x y) =
     [CubicCommand x2 y2 x1 y1 (fst prev) (snd prev)]"
| "reverse_emit out prev _ = []"

text \<open>The second loop, for \<open>i\<close> from \<open>n - 1\<close> down to \<open>0\<close>.\<close>

fun reverse_loop ::
  "IconPathCommand list \<Rightarrow> Point option list \<Rightarrow> Point list \<Rightarrow> nat \<Rightarrow> IconPathCommand list
     \<Rightarrow> IconPathCommand list" where
  "reverse_loop sub endpoints verts 0 out = out"
| "reverse_loop sub endpoints verts (Suc i) out =
     reverse_loop sub endpoints verts i
       (out @ reverse_emit out (prevEndpoint endpoints verts i) (sub ! i))"

definition reverseSubpath :: "IconPathCommand list \<Rightarrow> IconPathCommand list" where
  "reverseSubpath sub =
     (let endpoints = endpoints_from (Num 0, Num 0) sub;
          verts = concat (map (\<lambda>e. case e of Some v \<Rightarrow> [v] | None \<Rightarrow> []) endpoints)
      in if verts = [] then sub
         else
           let lastv = last verts;
               out = reverse_loop sub endpoints verts (length sub)
                       [MoveCommand (fst lastv) (snd lastv)]
           in if list_ex (\<lambda>s. cmd_type s = ''Z'') sub then out @ [CloseCommand] else out)"

text \<open>
  \<^verbatim>\<open>getNormalizedWindingForFont\<close>: the decision for the subpath at index \<open>idx\<close>, then the
  loop over the subpaths.
\<close>

definition needsReverse :: "IconPath \<Rightarrow> bool \<Rightarrow> nat \<Rightarrow> IconPathCommand list \<Rightarrow> bool" where
  "needsReverse p outerShouldBeCW idx sub =
     (let area = getSignedAreaFontSpace p sub;
          isCW = (area < Num 0);
          shouldBeCW = (if outerShouldBeCW then idx = 0 else False)
      in if shouldBeCW then \<not> isCW else isCW)"

definition normalize_sub :: "IconPath \<Rightarrow> bool \<Rightarrow> nat \<Rightarrow> IconPathCommand list \<Rightarrow> IconPathCommand list" where
  "normalize_sub p outerShouldBeCW idx sub =
     (if needsReverse p outerShouldBeCW idx sub then reverseSubpath sub else sub)"

fun normalize_loop ::
  "IconPath \<Rightarrow> bool \<Rightarrow> nat \<Rightarrow> IconPathCommand list list \<Rightarrow> IconPathCommand list" where
  "normalize_loop p outerShouldBeCW idx [] = []"
| "normalize_loop p outerShouldBeCW idx (sub # subs) =
     normalize_sub p outerShouldBeCW idx sub @ normalize_loop p outerShouldBeCW (Suc idx) subs"

definition getNormalizedWindingForFont :: "bool \<Rightarrow> IconPath \<Rightarrow> IconPathCommand list" where
  "getNormalizedWindingForFont outerShouldBeCW p =
     normalize_loop p outerShouldBeCW 0 (splitSubpaths (getOpenTypeCommands p))"

text \<open>
  The endpoint that a canonical command contributes to the signed area and to the
  vertices of \<^verbatim>\<open>reverseSubpath\<close>, and the subpaths as \<^verbatim>\<open>splitSubpaths\<close> produces them from
  canonical commands: no Move after the first command.
\<close>

fun vertex :: "IconPathCommand \<Rightarrow> Point list" where
  "vertex (MoveCommand x y) = [(x, y)]"
| "vertex (LineCommand x y) = [(x, y)]"
| "vertex (QuadCommand x1 y1 x y) = [(x, y)]"
| "vertex (CubicCommand x1 y1 x2 y2 x y) = [(x, y)]"
| "vertex _ = []"

definition vertices :: "IconPathCommand list \<Rightarrow> Point list" where
  "vertices cs = concat (map vertex cs)"






text \<open>
  The subpaths that \<^verbatim>\<open>getNormalizedWindingForFont\<close> pushes, one per subpath and before they
  are concatenated; commands and loop variables of the canonicalizer that are finite.
\<close>

fun normalized_pieces ::
  "IconPath \<Rightarrow> bool \<Rightarrow> nat \<Rightarrow> IconPathCommand list list \<Rightarrow> IconPathCommand list list" where
  "normalized_pieces p outerShouldBeCW idx [] = []"
| "normalized_pieces p outerShouldBeCW idx (sub # subs) =
     normalize_sub p outerShouldBeCW idx sub # normalized_pieces p outerShouldBeCW (Suc idx) subs"



section \<open>Rectangles\<close>

datatype Corner = sharp | rounded number number | chamfer number number

datatype Side = side_tl | side_tr | side_br | side_bl

text \<open>
  The argument of \<^verbatim>\<open>rect\<close>; the optional fields (\<^verbatim>\<open>rx\<close>, \<^verbatim>\<open>ry\<close> and the four corners of
  \<^verbatim>\<open>corners\<close>) are options.
\<close>

record Rect =
  rect_x :: number
  rect_y :: number
  rect_width :: number
  rect_height :: number
  rect_rx :: "number option"
  rect_ry :: "number option"
  corners_tl :: "Corner option"
  corners_tr :: "Corner option"
  corners_br :: "Corner option"
  corners_bl :: "Corner option"

fun corner :: "Side \<Rightarrow> number \<Rightarrow> number \<Rightarrow> Corner \<Rightarrow> IconPath \<Rightarrow> IconPath" where
  "corner side_tr x y (rounded rx ry) p = path_q x y x (y + ry) (path_l (x - rx) y p)"
| "corner side_br x y (rounded rx ry) p = path_q x y (x - rx) y (path_l x (y - ry) p)"
| "corner side_bl x y (rounded rx ry) p = path_q x y x (y - ry) (path_l (x + rx) y p)"
| "corner side_tl x y (rounded rx ry) p = path_q x y (x + rx) y (path_l x (y + ry) p)"
| "corner side_tr x y (chamfer rx ry) p = path_l x (y + ry) (path_l (x - rx) y p)"
| "corner side_br x y (chamfer rx ry) p = path_l (x - rx) y (path_l x (y - ry) p)"
| "corner side_bl x y (chamfer rx ry) p = path_l x (y - ry) (path_l (x + rx) y p)"
| "corner side_tl x y (chamfer rx ry) p = path_l (x + rx) y (path_l x (y + ry) p)"
| "corner side x y sharp p = path_l x y p"

definition resolveCorner :: "number \<Rightarrow> number \<Rightarrow> Corner option \<Rightarrow> Corner" where
  "resolveCorner rx ry c =
     (case c of Some k \<Rightarrow> k
      | None \<Rightarrow> if strict_eq rx (Num 0) \<and> strict_eq ry (Num 0) then sharp else rounded rx ry)"

definition rect :: "Rect \<Rightarrow> IconPath \<Rightarrow> IconPath" where
  "rect config p =
     (let x = rect_x config; y = rect_y config;
          w = rect_width config; h = rect_height config;
          rx0 = (case rect_rx config of Some r \<Rightarrow> r | None \<Rightarrow> Num 0);
          ry0 = (case rect_ry config of Some r \<Rightarrow> r | None \<Rightarrow> rx0);
          rx = Math_min rx0 (w / Num 2);
          ry = Math_min ry0 (h / Num 2);
          tl = resolveCorner rx ry (corners_tl config);
          tr = resolveCorner rx ry (corners_tr config);
          br = resolveCorner rx ry (corners_br config);
          bl = resolveCorner rx ry (corners_bl config);
          p1 = (case tl of
                  rounded trx try \<Rightarrow> path_m (x + trx) y p
                | chamfer trx try \<Rightarrow> path_m (x + trx) y p
                | sharp \<Rightarrow> path_m x y p);
          p2 = corner side_tr (x + w) y tr p1;
          p3 = corner side_br (x + w) (y + h) br p2;
          p4 = corner side_bl x (y + h) bl p3;
          p5 = corner side_tl x y tl p4
      in close p5)"

section \<open>The font-space projector\<close>

text \<open>
  The calls made on the \<^verbatim>\<open>Path\<close> object of the font library, in order: \<^verbatim>\<open>moveTo\<close>,
  \<^verbatim>\<open>lineTo\<close>, \<^verbatim>\<open>quadraticCurveTo\<close>, \<^verbatim>\<open>curveTo\<close> and \<^verbatim>\<open>close\<close>.
\<close>

datatype OpenTypePathCommand =
    moveTo number number
  | lineTo number number
  | quadraticCurveTo number number number number
  | curveTo number number number number number number
  | closePath

text \<open>
  \<^verbatim>\<open>toOpenTypePath\<close> of the class with its own width and height: the top of the bounding
  box of the commands is anchored to the ascender.  The switch has no case for commands
  outside M, L, Q, C and Z; the normalized commands hold none.
\<close>

fun project_anchored ::
  "number \<Rightarrow> number \<Rightarrow> number \<Rightarrow> number \<Rightarrow> IconPathCommand \<Rightarrow> OpenTypePathCommand list" where
  "project_anchored factorX factorY offsetY h (MoveCommand x y) =
     [moveTo (x * factorX) (offsetY + (h - y) * factorY)]"
| "project_anchored factorX factorY offsetY h (LineCommand x y) =
     [lineTo (x * factorX) (offsetY + (h - y) * factorY)]"
| "project_anchored factorX factorY offsetY h (QuadCommand x1 y1 x y) =
     [quadraticCurveTo (x1 * factorX) (offsetY + (h - y1) * factorY)
        (x * factorX) (offsetY + (h - y) * factorY)]"
| "project_anchored factorX factorY offsetY h (CubicCommand x1 y1 x2 y2 x y) =
     [curveTo (x1 * factorX) (offsetY + (h - y1) * factorY)
        (x2 * factorX) (offsetY + (h - y2) * factorY)
        (x * factorX) (offsetY + (h - y) * factorY)]"
| "project_anchored factorX factorY offsetY h CloseCommand = [closePath]"
| "project_anchored factorX factorY offsetY h _ = []"

definition toOpenTypePath :: "number \<Rightarrow> number \<Rightarrow> IconPath \<Rightarrow> OpenTypePathCommand list" where
  "toOpenTypePath ascender descender p =
     (let metricsHeight = ascender - descender;
          factorX = metricsHeight / width p;
          factorY = metricsHeight / height p;
          cmds = getNormalizedWindingForFont True p;
          bbox = getCommandBounds p;
          offsetY = ascender - maxY bbox * factorY
      in concat (map (project_anchored factorX factorY offsetY (height p)) cmds))"



text \<open>
  The bounding box \<open>(x1, y1, x2, y2)\<close> that the font library reports for a path, for paths
  of straight segments: the least and the greatest coordinate of the points moved or
  drawn to.  The library is not part of the repository; the box of a path with curves
  (which depends on the extrema of the curves) is left out as \<open>None\<close>.
\<close>

fun ot_point :: "OpenTypePathCommand \<Rightarrow> Point list option" where
  "ot_point (moveTo x y) = Some [(x, y)]"
| "ot_point (lineTo x y) = Some [(x, y)]"
| "ot_point closePath = Some []"
| "ot_point _ = None"

fun ot_points :: "OpenTypePathCommand list \<Rightarrow> Point list option" where
  "ot_points [] = Some []"
| "ot_points (c # cs) =
     (case ot_point c of None \<Rightarrow> None
      | Some ps \<Rightarrow> (case ot_points cs of None \<Rightarrow> None | Some qs \<Rightarrow> Some (ps @ qs)))"

definition getBoundingBox :: "OpenTypePathCommand list \<Rightarrow> (number \<times> number \<times> number \<times> number) option" where
  "getBoundingBox path =
     (case ot_points path of
        None \<Rightarrow> None
      | Some [] \<Rightarrow> None
      | Some (pt # pts) \<Rightarrow>
          Some (foldl Math_min (fst pt) (map fst pts), foldl Math_min (snd pt) (map snd pts),
                foldl Math_max (fst pt) (map fst pts), foldl Math_max (snd pt) (map snd pts)))"

text \<open>
  The path of the projection test: \<^verbatim>\<open>new IconPath().rect({x: 0, y: 0, width: 24, height: 24})\<close>,
  the full-canvas square on the default 24 by 24 design space.
\<close>

definition full_square :: IconPath where
  "full_square =
     rect \<lparr>rect_x = Num 0, rect_y = Num 0, rect_width = Num 24, rect_height = Num 24,
           rect_rx = None, rect_ry = None,
           corners_tl = None, corners_tr = None, corners_br = None, corners_bl = None\<rparr>
       (new_IconPath (Num 24) (Num 24) [])"

section \<open>The string-based builder operations\<close>




































lemma cmd_type_mapCmd [simp]: "cmd_type (mapCmd fn cmd) = cmd_type cmd"
  by (cases cmd) (simp_all add: Let_def)

lemma types_mapCoords [simp]:
  "map cmd_type (commands (mapCoords fn p)) = map cmd_type (commands p)"
  by (simp add: mapCoords_def comp_def)


section \<open>Properties of the transforms and of the arc converter\<close>

text \<open>
  C10.  Every coordinate transform (\<^verbatim>\<open>scale\<close>, \<^verbatim>\<open>translate\<close>, \<^verbatim>\<open>rotate\<close>, \<^verbatim>\<open>flipX\<close>,
  \<^verbatim>\<open>flipY\<close>, \<^verbatim>\<open>center\<close>, \<^verbatim>\<open>fit\<close>) rewrites the command list elementwise: the list of the
  type tags of the result is the list of the type tags of the original, so the length is
  the same and the command at each index keeps its tag (an H stays an H, a V a V, and a Z
  a Z, which has no payload).
\<close>

theorem transforms_keep_command_types:
  "map cmd_type (commands (scale sx sy cx cy p)) = map cmd_type (commands p)
   \<and> map cmd_type (commands (scale_default sx sy p)) = map cmd_type (commands p)
   \<and> map cmd_type (commands (translate dx dy p)) = map cmd_type (commands p)
   \<and> map cmd_type (commands (rotate angle cx cy p)) = map cmd_type (commands p)
   \<and> map cmd_type (commands (flipX w p)) = map cmd_type (commands p)
   \<and> map cmd_type (commands (flipY h p)) = map cmd_type (commands p)
   \<and> map cmd_type (commands (center mnX mnY mxX mxY p)) = map cmd_type (commands p)
   \<and> map cmd_type (commands (center_default p)) = map cmd_type (commands p)
   \<and> map cmd_type (commands (fit preserveAspect p)) = map cmd_type (commands p)"
  by (simp add: scale_def scale_default_def translate_def rotate_def flipX_def flipY_def
        center_def center_default_def fit_def Let_def)

text \<open>
  C5.  The degenerate cases of \<^verbatim>\<open>arcToCubic\<close>.  When the start point equals the end
  point (\<^verbatim>\<open>===\<close> on both coordinates) the result is the empty list.  When the endpoints
  differ and a radius is zero the result is exactly one cubic, from the start point to
  the end point, whose first control point is the start point and whose second control
  point is the end point; for finite coordinates both control points are collinear with
  the two endpoints.
\<close>

theorem arcToCubic_degenerate:
  "(strict_eq x0 x \<and> strict_eq y0 y \<longrightarrow>
      arcToCubic x0 y0 rx ry rot large sweep x y = Some [])
   \<and> (\<not> (strict_eq x0 x \<and> strict_eq y0 y) \<and> (strict_eq rx (Num 0) \<or> strict_eq ry (Num 0)) \<longrightarrow>
        arcToCubic x0 y0 rx ry rot large sweep x y = Some [CubicCommand x0 y0 x y x y]
        \<and> (isFinite x0 \<and> isFinite y0 \<and> isFinite x \<and> isFinite y \<longrightarrow>
             collinear (x0, y0) (x0, y0) (x, y) \<and> collinear (x0, y0) (x, y) (x, y)))"
proof (intro conjI impI)
  assume "strict_eq x0 x \<and> strict_eq y0 y"
  then show "arcToCubic x0 y0 rx ry rot large sweep x y = Some []"
    by (simp add: arcToCubic_def)
next
  assume "\<not> (strict_eq x0 x \<and> strict_eq y0 y) \<and> (strict_eq rx (Num 0) \<or> strict_eq ry (Num 0))"
  then show "arcToCubic x0 y0 rx ry rot large sweep x y = Some [CubicCommand x0 y0 x y x y]"
    by (auto simp add: arcToCubic_def)
next
  assume "isFinite x0 \<and> isFinite y0 \<and> isFinite x \<and> isFinite y"
  then show "collinear (x0, y0) (x0, y0) (x, y)"
    by (cases x0; cases y0; cases x; cases y)
       (simp_all add: collinear_def strict_eq_def minus_number_def)
next
  assume "isFinite x0 \<and> isFinite y0 \<and> isFinite x \<and> isFinite y"
  then show "collinear (x0, y0) (x, y) (x, y)"
    by (cases x0; cases y0; cases x; cases y)
       (simp_all add: collinear_def strict_eq_def minus_number_def)
qed

text \<open>
  The theorem at two arcs: from \<open>(1, 2)\<close> to \<open>(1, 2)\<close> with radii \<open>5, 5\<close>, and from
  \<open>(0, 0)\<close> to \<open>(3, 4)\<close> with radii \<open>0, 5\<close>.
\<close>

theorem arcToCubic_degenerate_witness:
  "arcToCubic (Num 1) (Num 2) (Num 5) (Num 5) (Num 0) (Num 0) (Num 1) (Num 1) (Num 2) = Some []
   \<and> arcToCubic (Num 0) (Num 0) (Num 0) (Num 5) (Num 0) (Num 0) (Num 1) (Num 3) (Num 4)
       = Some [CubicCommand (Num 0) (Num 0) (Num 3) (Num 4) (Num 3) (Num 4)]
   \<and> collinear (Num 0, Num 0) (Num 0, Num 0) (Num 3, Num 4)
   \<and> collinear (Num 0, Num 0) (Num 3, Num 4) (Num 3, Num 4)"
  using arcToCubic_degenerate [of "Num 1" "Num 1" "Num 2" "Num 2" "Num 5" "Num 5" "Num 0" "Num 0" "Num 1"]
    arcToCubic_degenerate [of "Num 0" "Num 3" "Num 0" "Num 4" "Num 0" "Num 5" "Num 0" "Num 0" "Num 1"]
  by (simp add: strict_eq_def)
section \<open>Bounds, translation, centring and fitting\<close>




lemma foldl_bounds_step:
  "foldl bounds_step b cs =
     \<lparr>minX = fst (foldl minmax_step (minX b, maxX b) (all_xs cs)),
      minY = fst (foldl minmax_step (minY b, maxY b) (all_ys cs)),
      maxX = snd (foldl minmax_step (minX b, maxX b) (all_xs cs)),
      maxY = snd (foldl minmax_step (minY b, maxY b) (all_ys cs))\<rparr>"
proof (induction cs arbitrary: b)
  case Nil
  then show ?case by (simp add: all_xs_def all_ys_def)
next
  case (Cons c cs)
  have step: "foldl bounds_step b (c # cs) = foldl bounds_step (bounds_step b c) cs"
    by simp
  show ?case
    unfolding step Cons.IH [of "bounds_step b c"]
    by (simp add: bounds_step_def Let_def all_xs_def all_ys_def)
qed

lemma getCommandBounds_eq:
  "getCommandBounds p =
     \<lparr>minX = fst (foldl minmax_step (PosInf, NegInf) (all_xs (commands p))),
      minY = fst (foldl minmax_step (PosInf, NegInf) (all_ys (commands p))),
      maxX = snd (foldl minmax_step (PosInf, NegInf) (all_xs (commands p))),
      maxY = snd (foldl minmax_step (PosInf, NegInf) (all_ys (commands p)))\<rparr>"
  by (simp add: getCommandBounds_def foldl_bounds_step)

lemma less_shift: "isFinite d \<Longrightarrow> (x + d < y + d) = (x < (y::number))"
  by (cases x; cases y; cases d) simp_all

lemma minmax_shift:
  "isFinite d \<Longrightarrow>
   foldl minmax_step (a + d, b + d) (map (\<lambda>x. x + d) xs) =
     (fst (foldl minmax_step (a, b) xs) + d, snd (foldl minmax_step (a, b) xs) + d)"
proof (induction xs arbitrary: a b)
  case Nil
  then show ?case by simp
next
  case (Cons x xs)
  have "minmax_step (a + d, b + d) (x + d)
          = (fst (minmax_step (a, b) x) + d, snd (minmax_step (a, b) x) + d)"
    using Cons.prems by (simp add: minmax_step_def Let_def less_shift)
  then show ?case
    using Cons.IH [OF Cons.prems, of "fst (minmax_step (a, b) x)" "snd (minmax_step (a, b) x)"]
    by simp
qed

lemma minmax_shift_init:
  "isFinite d \<Longrightarrow>
   foldl minmax_step (PosInf, NegInf) (map (\<lambda>x. x + d) xs) =
     (fst (foldl minmax_step (PosInf, NegInf) xs) + d,
      snd (foldl minmax_step (PosInf, NegInf) xs) + d)"
  using minmax_shift [of d PosInf NegInf xs] by (cases d) simp_all

lemma cmd_xs_translate:
  "cmd_xs (mapCmd (\<lambda>x y. (x + dx, y + dy)) c) = map (\<lambda>x. x + dx) (cmd_xs c)"
  by (cases c) (simp_all add: Let_def)

lemma cmd_ys_translate:
  "cmd_ys (mapCmd (\<lambda>x y. (x + dx, y + dy)) c) = map (\<lambda>y. y + dy) (cmd_ys c)"
  by (cases c) (simp_all add: Let_def)

lemma all_xs_translate:
  "all_xs (commands (translate dx dy p)) = map (\<lambda>x. x + dx) (all_xs (commands p))"
  by (simp add: all_xs_def translate_def mapCoords_def map_concat comp_def cmd_xs_translate)

lemma all_ys_translate:
  "all_ys (commands (translate dx dy p)) = map (\<lambda>y. y + dy) (all_ys (commands p))"
  by (simp add: all_ys_def translate_def mapCoords_def map_concat comp_def cmd_ys_translate)

lemma bounds_translate_x:
  assumes "isFinite dx"
  shows "minX (getCommandBounds (translate dx dy p)) = minX (getCommandBounds p) + dx"
    and "maxX (getCommandBounds (translate dx dy p)) = maxX (getCommandBounds p) + dx"
  using assms by (simp_all add: getCommandBounds_eq all_xs_translate minmax_shift_init)

lemma bounds_translate_y:
  assumes "isFinite dy"
  shows "minY (getCommandBounds (translate dx dy p)) = minY (getCommandBounds p) + dy"
    and "maxY (getCommandBounds (translate dx dy p)) = maxY (getCommandBounds p) + dy"
  using assms by (simp_all add: getCommandBounds_eq all_ys_translate minmax_shift_init)

lemma zero_extent_finite:
  "strict_eq (mx - mn) (Num 0) \<Longrightarrow> \<exists>r. mn = Num r \<and> mx = Num r"
  by (cases mx; cases mn) (simp_all add: strict_eq_def minus_number_def)

lemma fit_zero_width:
  assumes w: "isFinite (width p)"
    and z: "strict_eq (maxX (getCommandBounds p) - minX (getCommandBounds p)) (Num 0)"
  shows "fit pa p = center_default p"
proof -
  obtain r where r: "minX (getCommandBounds p) = Num r" "maxX (getCommandBounds p) = Num r"
    using zero_extent_finite [OF z] by blast
  obtain wd where wd: "width p = Num wd" using w by (cases "width p") simp_all
  obtain dx dy where c: "center_default p = translate (Num dx) dy p"
    by (simp add: center_default_def center_def Let_def r wd minus_number_def)
  have "strict_eq (maxX (getCommandBounds (center_default p)) - minX (getCommandBounds (center_default p))) (Num 0)"
    by (simp add: c bounds_translate_x r strict_eq_def minus_number_def)
  then show ?thesis
    by (simp add: fit_def Let_def)
qed

lemma fit_zero_height:
  assumes h: "isFinite (height p)"
    and z: "strict_eq (maxY (getCommandBounds p) - minY (getCommandBounds p)) (Num 0)"
  shows "fit pa p = center_default p"
proof -
  obtain r where r: "minY (getCommandBounds p) = Num r" "maxY (getCommandBounds p) = Num r"
    using zero_extent_finite [OF z] by blast
  obtain ht where ht: "height p = Num ht" using h by (cases "height p") simp_all
  obtain dx dy where c: "center_default p = translate dx (Num dy) p"
    by (simp add: center_default_def center_def Let_def r ht minus_number_def)
  have "strict_eq (maxY (getCommandBounds (center_default p)) - minY (getCommandBounds (center_default p))) (Num 0)"
    by (simp add: c bounds_translate_y r strict_eq_def minus_number_def)
  then show ?thesis
    by (simp add: fit_def Let_def)
qed

lemma minmax_finite:
  "isFinite a \<Longrightarrow> isFinite b \<Longrightarrow> list_all isFinite xs \<Longrightarrow>
   isFinite (fst (foldl minmax_step (a, b) xs)) \<and> isFinite (snd (foldl minmax_step (a, b) xs))"
  by (induction xs arbitrary: a b) (simp_all add: minmax_step_def Let_def)

lemma minmax_finite_init:
  assumes "xs \<noteq> []" "list_all isFinite xs"
  shows "isFinite (fst (foldl minmax_step (PosInf, NegInf) xs)) \<and> isFinite (snd (foldl minmax_step (PosInf, NegInf) xs))"
proof (cases xs)
  case Nil
  with assms show ?thesis by simp
next
  case (Cons x xs')
  with assms obtain r where r: "x = Num r" by (cases x) simp_all
  have "minmax_step (PosInf, NegInf) x = (x, x)"
    by (simp add: r minmax_step_def Let_def)
  with Cons assms minmax_finite [of x x xs'] show ?thesis by simp
qed

lemma center_offset_finite:
  assumes "isFinite t" "isFinite mn" "isFinite mx"
  shows "isFinite (Num 0 + (t - Num 0 - (mx - mn)) / Num 2 - mn)"
  using assms by (cases t; cases mn; cases mx) (simp_all add: minus_number_def)

lemma center_default_finite:
  assumes "isFinite (width p)" "isFinite (height p)" "finite_commands (commands p)"
  shows "finite_commands (commands (center_default p))"
proof -
  define b where "b = getCommandBounds p"
  define dx where "dx = Num 0 + (width p - Num 0 - (maxX b - minX b)) / Num 2 - minX b"
  define dy where "dy = Num 0 + (height p - Num 0 - (maxY b - minY b)) / Num 2 - minY b"
  have c: "center_default p = translate dx dy p"
    by (simp add: center_default_def center_def Let_def b_def dx_def dy_def)
  have fx: "isFinite dx" if "all_xs (commands p) \<noteq> []"
    unfolding dx_def b_def using that assms minmax_finite_init [of "all_xs (commands p)"]
    by (intro center_offset_finite) (simp_all add: getCommandBounds_eq finite_commands_def)
  have fy: "isFinite dy" if "all_ys (commands p) \<noteq> []"
    unfolding dy_def b_def using that assms minmax_finite_init [of "all_ys (commands p)"]
    by (intro center_offset_finite) (simp_all add: getCommandBounds_eq finite_commands_def)
  have ax: "list_all isFinite (map (\<lambda>x. x + dx) (all_xs (commands p)))"
  proof (cases "all_xs (commands p) = []")
    case True then show ?thesis by simp
  next
    case False
    from fx [OF False] obtain d where "dx = Num d" by (cases dx) simp_all
    moreover have "isFinite (x + Num d)" if "isFinite x" for x using that by (cases x) simp_all
    ultimately show ?thesis using assms(3) by (simp add: finite_commands_def list_all_iff)
  qed
  have ay: "list_all isFinite (map (\<lambda>y. y + dy) (all_ys (commands p)))"
  proof (cases "all_ys (commands p) = []")
    case True then show ?thesis by simp
  next
    case False
    from fy [OF False] obtain d where "dy = Num d" by (cases dy) simp_all
    moreover have "isFinite (y + Num d)" if "isFinite y" for y using that by (cases y) simp_all
    ultimately show ?thesis using assms(3) by (simp add: finite_commands_def list_all_iff)
  qed
  show ?thesis
    unfolding c finite_commands_def all_xs_translate all_ys_translate using ax ay by simp
qed




text \<open>
  C4 (as amended).  For a path with a finite design width and height whose command
  bounding box has zero width or zero height, \<^verbatim>\<open>fit\<close> does not scale: its result is the
  result of \<^verbatim>\<open>center()\<close>, the path translated to the centre of the canvas.  If all
  coordinates of the path are finite, so are all coordinates of the result (none is
  \<^verbatim>\<open>NaN\<close>).
\<close>

theorem fit_zero_extent_centres:
  assumes "isFinite (width p)" and "isFinite (height p)"
    and "strict_eq (maxX (getCommandBounds p) - minX (getCommandBounds p)) (Num 0)
         \<or> strict_eq (maxY (getCommandBounds p) - minY (getCommandBounds p)) (Num 0)"
  shows "fit preserveAspect p = center_default p
         \<and> (finite_commands (commands p) \<longrightarrow> finite_commands (commands (fit preserveAspect p)))"
proof -
  have e: "fit preserveAspect p = center_default p"
    using assms fit_zero_width [of p preserveAspect] fit_zero_height [of p preserveAspect]
    by blast
  show ?thesis
    unfolding e using assms(1,2) center_default_finite [of p] by blast
qed

text \<open>
  The theorem at the horizontal segment from \<open>(0, 0)\<close> to \<open>(10, 0)\<close> on the 24 by 24
  canvas, whose bounding box has height zero.
\<close>

theorem fit_zero_extent_centres_witness:
  "strict_eq (maxY (getCommandBounds
       \<lparr>width = Num 24, height = Num 24,
        commands = [MoveCommand (Num 0) (Num 0), LineCommand (Num 10) (Num 0)]\<rparr>)
     - minY (getCommandBounds
       \<lparr>width = Num 24, height = Num 24,
        commands = [MoveCommand (Num 0) (Num 0), LineCommand (Num 10) (Num 0)]\<rparr>)) (Num 0)
   \<and> fit True \<lparr>width = Num 24, height = Num 24,
        commands = [MoveCommand (Num 0) (Num 0), LineCommand (Num 10) (Num 0)]\<rparr>
     = center_default \<lparr>width = Num 24, height = Num 24,
        commands = [MoveCommand (Num 0) (Num 0), LineCommand (Num 10) (Num 0)]\<rparr>
   \<and> finite_commands (commands (fit True \<lparr>width = Num 24, height = Num 24,
        commands = [MoveCommand (Num 0) (Num 0), LineCommand (Num 10) (Num 0)]\<rparr>))"
proof -
  let ?p = "\<lparr>width = Num 24, height = Num 24,
        commands = [MoveCommand (Num 0) (Num 0), LineCommand (Num 10) (Num 0)]\<rparr>"
  have z: "strict_eq (maxY (getCommandBounds ?p) - minY (getCommandBounds ?p)) (Num 0)"
    by (simp add: getCommandBounds_def bounds_step_def minmax_step_def Let_def
          strict_eq_def minus_number_def)
  have f: "finite_commands (commands ?p)"
    by (simp add: finite_commands_def all_xs_def all_ys_def)
  have w: "isFinite (width ?p)" "isFinite (height ?p)" by simp_all
  from z have d: "strict_eq (maxX (getCommandBounds ?p) - minX (getCommandBounds ?p)) (Num 0)
      \<or> strict_eq (maxY (getCommandBounds ?p) - minY (getCommandBounds ?p)) (Num 0)" ..
  show ?thesis
    using fit_zero_extent_centres [OF w d, of True] z f by blast
qed

text \<open>
  The claim as stated (the command list is left unchanged) fails on the same path:
  \<^verbatim>\<open>fit\<close> centres before it tests the shape, so the segment ends at
  \<open>(7, 12)\<close>--\<open>(17, 12)\<close>.
\<close>

theorem fit_unchanged_counterexample:
  "strict_eq (maxY (getCommandBounds
       \<lparr>width = Num 24, height = Num 24,
        commands = [MoveCommand (Num 0) (Num 0), LineCommand (Num 10) (Num 0)]\<rparr>)
     - minY (getCommandBounds
       \<lparr>width = Num 24, height = Num 24,
        commands = [MoveCommand (Num 0) (Num 0), LineCommand (Num 10) (Num 0)]\<rparr>)) (Num 0)
   \<and> commands (fit True \<lparr>width = Num 24, height = Num 24,
        commands = [MoveCommand (Num 0) (Num 0), LineCommand (Num 10) (Num 0)]\<rparr>)
     = [MoveCommand (Num 7) (Num 12), LineCommand (Num 17) (Num 12)]"
  by (simp add: fit_def center_default_def center_def translate_def mapCoords_def
        getCommandBounds_def getCanvasBounds_def bounds_step_def minmax_step_def Let_def
        strict_eq_def minus_number_def)

section \<open>The projection scenario\<close>

lemma full_square_commands:
  "commands full_square =
     [MoveCommand (Num 0) (Num 0), LineCommand (Num 24) (Num 0), LineCommand (Num 24) (Num 24),
      LineCommand (Num 0) (Num 24), LineCommand (Num 0) (Num 0), CloseCommand]"
  by code_simp


text \<open>
  The older \<^verbatim>\<open>toOpenTypePath\<close>, which anchors the top of the bounding box of the shape to
  the ascender, agrees on the full square and moves the scaled square up to the
  ascender line.
\<close>

theorem full_square_projection_anchored:
  "getBoundingBox (toOpenTypePath (Num 800) (Num (- 200)) full_square)
     = Some (Num 0, Num (- 200), Num 1000, Num 800)
   \<and> getBoundingBox
       (toOpenTypePath (Num 800) (Num (- 200))
          (scale_default (Num (1 / 2)) (Num (1 / 2)) full_square))
     = Some (Num 250, Num 300, Num 750, Num 800)"
  by code_simp

section \<open>The arc converter returns\<close>







section \<open>Errors of the string-based operations\<close>







section \<open>The shoelace sum of a reversed polygon\<close>










section \<open>Reversal of a subpath\<close>

lemma vertices_simps [simp]:
  "vertices [] = []" "vertices (c # cs) = vertex c @ vertices cs"
  "vertices (xs @ ys) = vertices xs @ vertices ys"
  by (simp_all add: vertices_def)























section \<open>Splitting into subpaths\<close>














section \<open>Canonical commands and normalized subpaths\<close>




























section \<open>Winding: reversal, normalization, idempotence\<close>


lemma normalized_pieces_length [simp]: "length (normalized_pieces p f idx ps) = length ps"
  by (induction ps arbitrary: idx) simp_all













text \<open>
  C6.  The canonicalizer does not move its tracked point \<^verbatim>\<open>cx\<close>, \<^verbatim>\<open>cy\<close> at a Z command,
  while \<^verbatim>\<open>getCurrentPoint\<close> of the same class resets the current point to the last M
  there.  On the path \<^verbatim>\<open>M 0 0 L 5 5 Z T 9 0\<close> the smooth curve after the Z becomes
  \<^verbatim>\<open>Q 5 5 9 0\<close>: its control point is \<open>(5, 5)\<close>, although the current point after
  \<^verbatim>\<open>M 0 0 L 5 5 Z\<close> is \<open>(0, 0)\<close>.
\<close>

theorem canonicalizer_after_close:
  "getOpenTypeCommands
     \<lparr>width = Num 24, height = Num 24,
      commands = [MoveCommand (Num 0) (Num 0), LineCommand (Num 5) (Num 5), CloseCommand,
                  SmoothQuadCommand (Num 9) (Num 0)]\<rparr>
     = [MoveCommand (Num 0) (Num 0), LineCommand (Num 5) (Num 5), CloseCommand,
        QuadCommand (Num 5) (Num 5) (Num 9) (Num 0)]
   \<and> getCurrentPoint
       \<lparr>width = Num 24, height = Num 24,
        commands = [MoveCommand (Num 0) (Num 0), LineCommand (Num 5) (Num 5), CloseCommand]\<rparr>
     = (Num 0, Num 0)"
proof (intro conjI)
  show "getOpenTypeCommands
     \<lparr>width = Num 24, height = Num 24,
      commands = [MoveCommand (Num 0) (Num 0), LineCommand (Num 5) (Num 5), CloseCommand,
                  SmoothQuadCommand (Num 9) (Num 0)]\<rparr>
     = [MoveCommand (Num 0) (Num 0), LineCommand (Num 5) (Num 5), CloseCommand,
        QuadCommand (Num 5) (Num 5) (Num 9) (Num 0)]"
    by code_simp
  show "getCurrentPoint
       \<lparr>width = Num 24, height = Num 24,
        commands = [MoveCommand (Num 0) (Num 0), LineCommand (Num 5) (Num 5), CloseCommand]\<rparr>
     = (Num 0, Num 0)"
    by code_simp
qed

end
